theory Spec2Isabelle
  imports Complex_Main
begin

section \<open>Flashlight assembly choreography (flashlight\_assembly.py)\<close>

text \<open>
  The script drives one robot handle through a fixed list of calls. The handle is
  modelled as the log of the commands it has received, oldest first; every driver
  method appends one command and returns the handle. The driver itself (kinematics,
  reachability, the controller-side scripts behind \<open>RunCodeCustom\<close>) is outside the
  script: a command is recorded as issued and is assumed to be accepted.

  Numbers are the decimal literals of the script, read as reals; the script never does
  arithmetic on them, it only passes them on. The library call \<open>Pose(x, y, z, rx, ry, rz)\<close>
  is kept symbolic: a target that remembers its six arguments.
\<close>

subsection \<open>Targets, commands and the robot handle\<close>

datatype target =
    Pose real real real real real real
  | Joints "real list"

datatype command =
    CSetSpeed real
  | CSetAcceleration real
  | CSetSpeedJoints real
  | CMoveJ target
  | CMoveL target
  | CRunCodeCustom string int

type_synonym robot = "command list"

definition setSpeed :: "real \<Rightarrow> robot \<Rightarrow> robot" where
  "setSpeed v robot = robot @ [CSetSpeed v]"

definition setAcceleration :: "real \<Rightarrow> robot \<Rightarrow> robot" where
  "setAcceleration a robot = robot @ [CSetAcceleration a]"

definition setSpeedJoints :: "real \<Rightarrow> robot \<Rightarrow> robot" where
  "setSpeedJoints v robot = robot @ [CSetSpeedJoints v]"

definition MoveJ :: "target \<Rightarrow> robot \<Rightarrow> robot" where
  "MoveJ t robot = robot @ [CMoveJ t]"

definition MoveL :: "target \<Rightarrow> robot \<Rightarrow> robot" where
  "MoveL t robot = robot @ [CMoveL t]"

definition RunCodeCustom :: "string \<Rightarrow> int \<Rightarrow> robot \<Rightarrow> robot" where
  "RunCodeCustom code kind robot = robot @ [CRunCodeCustom code kind]"

subsection \<open>Python lookups that can raise\<close>

datatype py_error = KeyError | IndexError | ValueError

text \<open>\<open>d[k]\<close> on a dict, \<open>xs[i]\<close> on a list with a literal index \<open>i \<ge> 0\<close>, and the
  unpacking \<open>x, y = xs\<close>.\<close>

definition getitem :: "('k \<rightharpoonup> 'v) \<Rightarrow> 'k \<Rightarrow> py_error + 'v" where
  "getitem d k = (case d k of None \<Rightarrow> Inl KeyError | Some v \<Rightarrow> Inr v)"

definition index :: "'a list \<Rightarrow> nat \<Rightarrow> py_error + 'a" where
  "index xs i = (if i < length xs then Inr (xs ! i) else Inl IndexError)"

definition unpack2 :: "'a list \<Rightarrow> py_error + ('a \<times> 'a)" where
  "unpack2 xs = (case xs of [x, y] \<Rightarrow> Inr (x, y) | _ \<Rightarrow> Inl ValueError)"

text \<open>An operation on the robot either runs to its end or raises part-way; in both
  cases the commands issued so far stay issued.\<close>

datatype outcome = Done robot | Raised py_error robot

fun robot_of :: "outcome \<Rightarrow> robot" where
  "robot_of (Done robot) = robot"
| "robot_of (Raised e robot) = robot"

fun and_then :: "outcome \<Rightarrow> (robot \<Rightarrow> outcome) \<Rightarrow> outcome" where
  "and_then (Done robot) f = f robot"
| "and_then (Raised e robot) f = Raised e robot"

subsection \<open>Configuration constants\<close>

definition INSTRUCTION_INSERT_CODE :: int where
  "INSTRUCTION_INSERT_CODE = 0"

definition GLOBAL_ACCELERATION :: real where
  "GLOBAL_ACCELERATION = 500"

definition tray_coords :: "int \<rightharpoonup> real list" where
  "tray_coords =
     [0 \<mapsto> [- 414.4, - 456.17],
      1 \<mapsto> [- 334.85, - 456.72],
      2 \<mapsto> [- 259.08, - 457.45],
      3 \<mapsto> [- 182.53, - 456.90],
      4 \<mapsto> [- 256.8, - 458.1]]"

definition CLEAR_HEIGHT :: real where
  "CLEAR_HEIGHT = 130"

definition HOME_POSITION :: "real list" where
  "HOME_POSITION = [0, - 90, 0, - 90, 0, 0]"

definition GRIP_HEIGHTS :: "string \<rightharpoonup> real" where
  "GRIP_HEIGHTS =
     [''endcap'' \<mapsto> 10,
      ''battery'' \<mapsto> 34,
      ''head'' \<mapsto> 65.3,
      ''pedestal'' \<mapsto> 60.9]"

definition CLAMP_XY :: "real list" where
  "CLAMP_XY = [- 322.98, 38.3]"

definition CLAMP_HEIGHTS :: "string \<rightharpoonup> real" where
  "CLAMP_HEIGHTS =
     [''release_head'' \<mapsto> 163.9,
      ''release_battery'' \<mapsto> 192.751,
      ''release_endcap'' \<mapsto> 197.31,
      ''pickup_flashlight'' \<mapsto> 187,
      ''clear'' \<mapsto> 250]"

definition ENDCAP_CLR_JOINTS :: "real list" where
  "ENDCAP_CLR_JOINTS = [37.41, - 72.76, 83.21, - 100.44, - 89.73, - 142.51]"

definition INTERMEDIATE_JOINTS :: "real list" where
  "INTERMEDIATE_JOINTS =
     [8.348806, - 77.787199, 103.336014, - 25.548815, 8.348806, - 194.849375]"

definition PED_CLR_JOINTS :: "real list" where
  "PED_CLR_JOINTS = [15.32, - 96.4, 143.41, - 47.02, 15.3, - 180]"

definition PED_DROP_JOINTS :: "real list" where
  "PED_DROP_JOINTS = [15.31, - 84.25, 147.34, - 63.09, 15.3, - 180]"

subsection \<open>Helper functions\<close>

definition set_motion_params :: "real \<Rightarrow> real \<Rightarrow> robot \<Rightarrow> robot" where
  "set_motion_params speed acceleration robot =
     setAcceleration acceleration (setSpeed speed robot)"

definition tray_pose :: "int \<Rightarrow> real \<Rightarrow> py_error + target" where
  "tray_pose tray_index z =
     (case getitem tray_coords tray_index of
        Inl e \<Rightarrow> Inl e
      | Inr xy \<Rightarrow>
          (case unpack2 xy of
             Inl e \<Rightarrow> Inl e
           | Inr (x, y) \<Rightarrow> Inr (Pose x y z 180 0 90)))"

text \<open>The expression \<open>Pose(xs[0], xs[1], z, 180, 0, 90)\<close> on a coordinate list
  \<open>xs\<close>, arguments evaluated left to right.\<close>

definition Pose_xy :: "real list \<Rightarrow> real \<Rightarrow> py_error + target" where
  "Pose_xy xs z =
     (case index xs 0 of
        Inl e \<Rightarrow> Inl e
      | Inr x \<Rightarrow>
          (case index xs 1 of
             Inl e \<Rightarrow> Inl e
           | Inr y \<Rightarrow> Inr (Pose x y z 180 0 90)))"

text \<open>The expression \<open>Pose(tray_coords[k][0], tray_coords[k][1], z, 180, 0, 90)\<close>:
  the dict is looked up once per coordinate.\<close>

definition Pose_tray_coords :: "int \<Rightarrow> real \<Rightarrow> py_error + target" where
  "Pose_tray_coords k z =
     (case getitem tray_coords k of
        Inl e \<Rightarrow> Inl e
      | Inr xs0 \<Rightarrow>
          (case index xs0 0 of
             Inl e \<Rightarrow> Inl e
           | Inr x \<Rightarrow>
               (case getitem tray_coords k of
                  Inl e \<Rightarrow> Inl e
                | Inr xs1 \<Rightarrow>
                    (case index xs1 1 of
                       Inl e \<Rightarrow> Inl e
                     | Inr y \<Rightarrow> Inr (Pose x y z 180 0 90)))))"

subsection \<open>Core functions\<close>

definition goto_and_pickup_tray :: "int \<Rightarrow> real \<Rightarrow> real \<Rightarrow> robot \<Rightarrow> outcome" where
  "goto_and_pickup_tray tray_slot_index pickup_height clear_height robot0 =
     (let robot1 = set_motion_params 1000 GLOBAL_ACCELERATION robot0 in
      if tray_slot_index = 0 then
        (let robot2 = MoveJ (Joints ENDCAP_CLR_JOINTS) robot1 in
         case Pose_tray_coords 0 pickup_height of
           Inl e \<Rightarrow> Raised e robot2
         | Inr pickup \<Rightarrow>
             (let robot3 = MoveL pickup robot2;
                  robot4 = RunCodeCustom ''rq_close_and_wait()'' INSTRUCTION_INSERT_CODE robot3
              in case Pose_tray_coords 0 clear_height of
                   Inl e \<Rightarrow> Raised e robot4
                 | Inr approach \<Rightarrow> Done (MoveL approach robot4)))
      else
        (case tray_pose tray_slot_index clear_height of
           Inl e \<Rightarrow> Raised e robot1
         | Inr approach \<Rightarrow>
             (case tray_pose tray_slot_index pickup_height of
                Inl e \<Rightarrow> Raised e robot1
              | Inr pickup \<Rightarrow>
                  (let robot2 = MoveJ approach robot1;
                       robot3 = MoveL pickup robot2;
                       robot4 = RunCodeCustom ''rq_close_and_wait()'' INSTRUCTION_INSERT_CODE robot3
                   in Done (MoveL approach robot4)))))"

definition goto_and_release_tray :: "int \<Rightarrow> real \<Rightarrow> real \<Rightarrow> robot \<Rightarrow> outcome" where
  "goto_and_release_tray tray_slot_index release_height clear_height robot0 =
     (case tray_pose tray_slot_index clear_height of
        Inl e \<Rightarrow> Raised e robot0
      | Inr approach \<Rightarrow>
          (case tray_pose tray_slot_index release_height of
             Inl e \<Rightarrow> Raised e robot0
           | Inr release \<Rightarrow>
               (let robot1 = set_motion_params 1000 GLOBAL_ACCELERATION robot0;
                    robot2 = MoveL approach robot1;
                    robot3 = setSpeed 200 robot2;
                    robot4 = MoveL release robot3;
                    robot5 = RunCodeCustom ''rq_open()'' INSTRUCTION_INSERT_CODE robot4
                in Done (MoveL approach robot5))))"

definition move_endcap_to_pedestal :: "robot \<Rightarrow> outcome" where
  "move_endcap_to_pedestal robot0 =
     (let robot1 = set_motion_params 1000 GLOBAL_ACCELERATION robot0;
          robot2 = MoveJ (Joints INTERMEDIATE_JOINTS) robot1;
          robot3 = MoveJ (Joints PED_CLR_JOINTS) robot2;
          robot4 = MoveL (Joints PED_DROP_JOINTS) robot3;
          robot5 = RunCodeCustom ''rq_open()'' INSTRUCTION_INSERT_CODE robot4
      in Done (MoveJ (Joints PED_CLR_JOINTS) robot5))"

subsection \<open>Integrated clamp functions\<close>

definition pickup_from_clamp :: "real \<Rightarrow> real \<Rightarrow> robot \<Rightarrow> outcome" where
  "pickup_from_clamp pickup_height clear_height robot0 =
     (let robot1 = set_motion_params 1000 GLOBAL_ACCELERATION robot0 in
      case Pose_xy CLAMP_XY clear_height of
        Inl e \<Rightarrow> Raised e robot1
      | Inr safe_pose \<Rightarrow>
          (case Pose_xy CLAMP_XY pickup_height of
             Inl e \<Rightarrow> Raised e robot1
           | Inr pickup_pose \<Rightarrow>
               (let robot2 = setSpeed 200 robot1;
                    robot3 = MoveL pickup_pose robot2;
                    robot4 = RunCodeCustom ''rq_close_and_wait()'' INSTRUCTION_INSERT_CODE robot3
                in Done (MoveL safe_pose robot4))))"

definition release_into_clamp :: "real \<Rightarrow> real \<Rightarrow> robot \<Rightarrow> outcome" where
  "release_into_clamp release_height clear_height robot0 =
     (let robot1 = set_motion_params 1000 GLOBAL_ACCELERATION robot0 in
      case Pose_xy CLAMP_XY clear_height of
        Inl e \<Rightarrow> Raised e robot1
      | Inr safe_pose \<Rightarrow>
          (case Pose_xy CLAMP_XY release_height of
             Inl e \<Rightarrow> Raised e robot1
           | Inr release_pose \<Rightarrow>
               (let robot2 = MoveJ safe_pose robot1;
                    robot3 = setSpeed 200 robot2;
                    robot4 = MoveL release_pose robot3;
                    robot5 = RunCodeCustom ''rq_open()'' INSTRUCTION_INSERT_CODE robot4
                in Done (MoveL safe_pose robot5))))"

text \<open>The body of the \<open>for i in range(6)\<close> loop of \<open>tighten_cap\<close>; the loop variable
  is not used.\<close>

definition tighten_cycle :: "real list \<Rightarrow> real list \<Rightarrow> nat \<Rightarrow> robot \<Rightarrow> robot" where
  "tighten_cycle initial_turning_angle final_turning_angle i robot0 =
     (let robot1 = RunCodeCustom ''rq_close_and_wait()'' INSTRUCTION_INSERT_CODE robot0;
          robot2 = MoveJ (Joints final_turning_angle) robot1;
          robot3 = RunCodeCustom ''rq_open()'' INSTRUCTION_INSERT_CODE robot2;
          robot4 = setSpeedJoints 200 robot3
      in MoveJ (Joints initial_turning_angle) robot4)"

definition tighten_cap :: "robot \<Rightarrow> outcome" where
  "tighten_cap robot0 =
     (let robot1 = set_motion_params 1000 GLOBAL_ACCELERATION robot0;
          new_clamp_x = - 322.25;
          new_clamp_y = 38.78
      in case getitem CLAMP_HEIGHTS ''clear'' of
           Inl e \<Rightarrow> Raised e robot1
         | Inr clear \<Rightarrow>
             (let safe_pose = Pose new_clamp_x new_clamp_y clear 180 0 90;
                  initial_turning_angle = [- 26.51, - 115.18, 112.67, - 87.48, - 90, - 206.51];
                  final_turning_angle =
                    [- 26.510124, - 115.194661, 113.040864, - 87.836005, - 89.999890, 11.929876];
                  robot2 = RunCodeCustom ''clamp()'' INSTRUCTION_INSERT_CODE robot1;
                  robot3 = MoveJ safe_pose robot2;
                  robot4 = MoveL (Joints initial_turning_angle) robot3;
                  robot5 = setSpeedJoints 700 robot4;
                  robot6 = fold (tighten_cycle initial_turning_angle final_turning_angle)
                             [0 ..< 6] robot5;
                  tighten_torque_pose = [- 26.51, - 115.18, 112.67, - 87.48, - 90, - 206.51];
                  robot7 = MoveJ (Joints tighten_torque_pose) robot6;
                  robot8 = RunCodeCustom
                             ''tighten_torque(2, -205.27, -115.27, 2, 2, 1, 100, 100, 50)''
                             INSTRUCTION_INSERT_CODE robot7
              in Done (RunCodeCustom ''unclamp()'' INSTRUCTION_INSERT_CODE robot8)))"

subsection \<open>Main program\<close>

text \<open>\<open>main\<close> takes the handle that \<open>RDK.Item('UR5')\<close> returns. The arguments of each
  call are evaluated before the call, so a failing dict lookup raises before the callee
  issues anything.\<close>

definition main :: "robot \<Rightarrow> outcome" where
  "main robot0 =
     (let robot1 = RunCodeCustom ''unclamp()'' INSTRUCTION_INSERT_CODE robot0;
          robot2 = MoveJ (Joints HOME_POSITION) robot1;
          robot3 = set_motion_params 1000 GLOBAL_ACCELERATION robot2
      in
      and_then
        (case getitem GRIP_HEIGHTS ''endcap'' of
           Inl e \<Rightarrow> Raised e robot3
         | Inr h \<Rightarrow> goto_and_pickup_tray 0 h CLEAR_HEIGHT robot3) (\<lambda>robot4.
      and_then (move_endcap_to_pedestal robot4) (\<lambda>robot5.
      and_then
        (case getitem GRIP_HEIGHTS ''head'' of
           Inl e \<Rightarrow> Raised e robot5
         | Inr h \<Rightarrow> goto_and_pickup_tray 2 h CLEAR_HEIGHT robot5) (\<lambda>robot6.
      and_then
        (case getitem CLAMP_HEIGHTS ''release_head'' of
           Inl e \<Rightarrow> Raised e robot6
         | Inr h \<Rightarrow>
             (case getitem CLAMP_HEIGHTS ''clear'' of
                Inl e \<Rightarrow> Raised e robot6
              | Inr c \<Rightarrow> release_into_clamp h c robot6)) (\<lambda>robot7.
      and_then
        (case getitem GRIP_HEIGHTS ''battery'' of
           Inl e \<Rightarrow> Raised e robot7
         | Inr h \<Rightarrow> goto_and_pickup_tray 1 h CLEAR_HEIGHT robot7) (\<lambda>robot8.
      and_then
        (case getitem CLAMP_HEIGHTS ''release_battery'' of
           Inl e \<Rightarrow> Raised e robot8
         | Inr h \<Rightarrow>
             (case getitem CLAMP_HEIGHTS ''clear'' of
                Inl e \<Rightarrow> Raised e robot8
              | Inr c \<Rightarrow> release_into_clamp h c robot8)) (\<lambda>robot9.
      and_then
        (case getitem GRIP_HEIGHTS ''pedestal'' of
           Inl e \<Rightarrow> Raised e robot9
         | Inr h \<Rightarrow> goto_and_pickup_tray 3 h CLEAR_HEIGHT robot9) (\<lambda>robot10.
      and_then (tighten_cap robot10) (\<lambda>robot11.
      and_then
        (case getitem CLAMP_HEIGHTS ''clear'' of
           Inl e \<Rightarrow> Raised e robot11
         | Inr c \<Rightarrow> pickup_from_clamp 185 c robot11) (\<lambda>robot12.
      and_then (goto_and_release_tray 4 89.90 CLEAR_HEIGHT robot12) (\<lambda>robot13.
      Done (MoveJ (Joints HOME_POSITION) robot13))))))))))))"

subsection \<open>Reading a command log\<close>

text \<open>The commands an operation adds to the log it is given.\<close>

definition issued :: "(robot \<Rightarrow> outcome) \<Rightarrow> robot \<Rightarrow> command list" where
  "issued f robot = drop (length robot) (robot_of (f robot))"

fun move_target :: "command \<Rightarrow> target option" where
  "move_target (CMoveJ t) = Some t"
| "move_target (CMoveL t) = Some t"
| "move_target (CSetSpeed v) = None"
| "move_target (CSetAcceleration a) = None"
| "move_target (CSetSpeedJoints v) = None"
| "move_target (CRunCodeCustom code kind) = None"

definition targets :: "command list \<Rightarrow> target list" where
  "targets cmds = List.map_filter move_target cmds"

fun is_Pose :: "target \<Rightarrow> bool" where
  "is_Pose (Pose x y z rx ry rz) = True"
| "is_Pose (Joints js) = False"

definition poses :: "command list \<Rightarrow> target list" where
  "poses cmds = filter is_Pose (targets cmds)"

text \<open>The targets of the joint-interpolated moves (\<open>MoveJ\<close>) only.\<close>

fun moveJ_target :: "command \<Rightarrow> target option" where
  "moveJ_target (CMoveJ t) = Some t"
| "moveJ_target (CMoveL t) = None"
| "moveJ_target (CSetSpeed v) = None"
| "moveJ_target (CSetAcceleration a) = None"
| "moveJ_target (CSetSpeedJoints v) = None"
| "moveJ_target (CRunCodeCustom code kind) = None"

fun pose_xy :: "target \<Rightarrow> (real \<times> real) option" where
  "pose_xy (Pose x y z rx ry rz) = Some (x, y)"
| "pose_xy (Joints js) = None"

fun orientation :: "target \<Rightarrow> (real \<times> real \<times> real) option" where
  "orientation (Pose x y z rx ry rz) = Some (rx, ry, rz)"
| "orientation (Joints js) = None"

text \<open>The tray slot, if any, whose configured coordinate is exactly \<open>(x, y)\<close>, and the
  slots a log visits: the slots of its Cartesian move targets in order, a run of moves
  over one slot counted once.\<close>

definition slot_at :: "real \<times> real \<Rightarrow> int option" where
  "slot_at xy = find (\<lambda>k. tray_coords k = Some [fst xy, snd xy]) [0, 1, 2, 3, 4]"

definition slot_of_target :: "target \<Rightarrow> int option" where
  "slot_of_target t = (case pose_xy t of None \<Rightarrow> None | Some xy \<Rightarrow> slot_at xy)"

definition visited_slots :: "command list \<Rightarrow> int list" where
  "visited_slots cmds = remdups_adj (List.map_filter slot_of_target (targets cmds))"

text \<open>The values of the locals \<open>initial_turning_angle\<close>, \<open>final_turning_angle\<close> and
  \<open>tighten_torque_pose\<close> of \<open>tighten_cap\<close>, and the commands of one pass through its
  loop body.\<close>

definition initial_turning_angle :: "real list" where
  "initial_turning_angle = [- 26.51, - 115.18, 112.67, - 87.48, - 90, - 206.51]"

definition final_turning_angle :: "real list" where
  "final_turning_angle =
     [- 26.510124, - 115.194661, 113.040864, - 87.836005, - 89.999890, 11.929876]"

definition tighten_torque_pose :: "real list" where
  "tighten_torque_pose = [- 26.51, - 115.18, 112.67, - 87.48, - 90, - 206.51]"

definition oscillation_cycle :: "command list" where
  "oscillation_cycle =
     [CRunCodeCustom ''rq_close_and_wait()'' 0,
      CMoveJ (Joints final_turning_angle),
      CRunCodeCustom ''rq_open()'' 0,
      CSetSpeedJoints 200,
      CMoveJ (Joints initial_turning_angle)]"

subsection \<open>The fixture clamp\<close>

datatype clamp_state = Clamped | Unclamped

record controller =
  clamp :: clamp_state

text \<open>Modelled from the spec: the controller-side scripts behind the custom-code
  commands \<open>clamp()\<close> and \<open>unclamp()\<close> are not in the source. The spec assumes of
  \<open>unclamp()\<close> no state change beyond "unclamped"; \<open>clamp()\<close> engages the clamp; no
  other command is taken to touch the clamp. Whatever else the controller holds is the
  record's extension and is left alone.\<close>

fun clamp_effect :: "command \<Rightarrow> 'a controller_scheme \<Rightarrow> 'a controller_scheme" where
  "clamp_effect (CRunCodeCustom code kind) c =
     (if code = ''unclamp()'' then c\<lparr>clamp := Unclamped\<rparr>
      else if code = ''clamp()'' then c\<lparr>clamp := Clamped\<rparr>
      else c)"
| "clamp_effect (CMoveJ t) c = c"
| "clamp_effect (CMoveL t) c = c"
| "clamp_effect (CSetSpeed v) c = c"
| "clamp_effect (CSetAcceleration a) c = c"
| "clamp_effect (CSetSpeedJoints v) c = c"

definition run_log :: "command list \<Rightarrow> 'a controller_scheme \<Rightarrow> 'a controller_scheme" where
  "run_log cmds c = fold clamp_effect cmds c"

section \<open>The command logs of the operations\<close>

lemmas cmd_defs = setSpeed_def setAcceleration_def setSpeedJoints_def MoveJ_def MoveL_def
  RunCodeCustom_def set_motion_params_def INSTRUCTION_INSERT_CODE_def GLOBAL_ACCELERATION_def

lemma dom_tray_coords: "dom tray_coords = {0, 1, 2, 3, 4}"
  by (auto simp: tray_coords_def split: if_splits)

lemma tray_coords_cases:
  "tray_coords k = None \<or> (\<exists>x y. tray_coords k = Some [x, y])"
  by (simp add: tray_coords_def)

lemma tray_pose_None: "tray_coords k = None \<Longrightarrow> tray_pose k z = Inl KeyError"
  by (simp add: tray_pose_def getitem_def)

lemma tray_pose_Some:
  "tray_coords k = Some [x, y] \<Longrightarrow> tray_pose k z = Inr (Pose x y z 180 0 90)"
  by (simp add: tray_pose_def getitem_def unpack2_def)

lemma Pose_tray_coords_0: "Pose_tray_coords 0 z = Inr (Pose (- 414.4) (- 456.17) z 180 0 90)"
  by (simp add: Pose_tray_coords_def getitem_def index_def tray_coords_def)

lemma Pose_xy_CLAMP_XY: "Pose_xy CLAMP_XY z = Inr (Pose (- 322.98) 38.3 z 180 0 90)"
  by (simp add: Pose_xy_def index_def CLAMP_XY_def)

lemma goto_and_pickup_tray_0:
  "goto_and_pickup_tray 0 p c r = Done (r @
     [CSetSpeed 1000, CSetAcceleration 500, CMoveJ (Joints ENDCAP_CLR_JOINTS),
      CMoveL (Pose (- 414.4) (- 456.17) p 180 0 90),
      CRunCodeCustom ''rq_close_and_wait()'' 0,
      CMoveL (Pose (- 414.4) (- 456.17) c 180 0 90)])"
  by (simp add: goto_and_pickup_tray_def Pose_tray_coords_0 cmd_defs)

lemma goto_and_pickup_tray_Some:
  "s \<noteq> 0 \<Longrightarrow> tray_coords s = Some [x, y] \<Longrightarrow> goto_and_pickup_tray s p c r = Done (r @
     [CSetSpeed 1000, CSetAcceleration 500,
      CMoveJ (Pose x y c 180 0 90),
      CMoveL (Pose x y p 180 0 90),
      CRunCodeCustom ''rq_close_and_wait()'' 0,
      CMoveL (Pose x y c 180 0 90)])"
  by (simp add: goto_and_pickup_tray_def tray_pose_Some cmd_defs)

lemma goto_and_pickup_tray_None:
  "s \<noteq> 0 \<Longrightarrow> tray_coords s = None \<Longrightarrow> goto_and_pickup_tray s p c r =
     Raised KeyError (r @ [CSetSpeed 1000, CSetAcceleration 500])"
  by (simp add: goto_and_pickup_tray_def tray_pose_None cmd_defs)

lemma goto_and_release_tray_Some:
  "tray_coords s = Some [x, y] \<Longrightarrow> goto_and_release_tray s h c r = Done (r @
     [CSetSpeed 1000, CSetAcceleration 500,
      CMoveL (Pose x y c 180 0 90),
      CSetSpeed 200,
      CMoveL (Pose x y h 180 0 90),
      CRunCodeCustom ''rq_open()'' 0,
      CMoveL (Pose x y c 180 0 90)])"
  by (simp add: goto_and_release_tray_def tray_pose_Some cmd_defs)

lemma goto_and_release_tray_None:
  "tray_coords s = None \<Longrightarrow> goto_and_release_tray s h c r = Raised KeyError r"
  by (simp add: goto_and_release_tray_def tray_pose_None)

lemma move_endcap_to_pedestal_log:
  "move_endcap_to_pedestal r = Done (r @
     [CSetSpeed 1000, CSetAcceleration 500,
      CMoveJ (Joints INTERMEDIATE_JOINTS), CMoveJ (Joints PED_CLR_JOINTS),
      CMoveL (Joints PED_DROP_JOINTS), CRunCodeCustom ''rq_open()'' 0,
      CMoveJ (Joints PED_CLR_JOINTS)])"
  by (simp add: move_endcap_to_pedestal_def cmd_defs)

lemma pickup_from_clamp_log:
  "pickup_from_clamp h c r = Done (r @
     [CSetSpeed 1000, CSetAcceleration 500, CSetSpeed 200,
      CMoveL (Pose (- 322.98) 38.3 h 180 0 90),
      CRunCodeCustom ''rq_close_and_wait()'' 0,
      CMoveL (Pose (- 322.98) 38.3 c 180 0 90)])"
  by (simp add: pickup_from_clamp_def Pose_xy_CLAMP_XY cmd_defs)

lemma release_into_clamp_log:
  "release_into_clamp h c r = Done (r @
     [CSetSpeed 1000, CSetAcceleration 500,
      CMoveJ (Pose (- 322.98) 38.3 c 180 0 90),
      CSetSpeed 200,
      CMoveL (Pose (- 322.98) 38.3 h 180 0 90),
      CRunCodeCustom ''rq_open()'' 0,
      CMoveL (Pose (- 322.98) 38.3 c 180 0 90)])"
  by (simp add: release_into_clamp_def Pose_xy_CLAMP_XY cmd_defs)

lemma tighten_cycle_log:
  "tighten_cycle initial_turning_angle final_turning_angle i r = r @ oscillation_cycle"
  by (simp add: tighten_cycle_def oscillation_cycle_def cmd_defs)

lemma fold_tighten_cycle:
  "fold (tighten_cycle initial_turning_angle final_turning_angle) is r =
     r @ concat (replicate (length is) oscillation_cycle)"
  by (induction "is" arbitrary: r) (simp_all add: tighten_cycle_log)

lemma tighten_cap_unfold:
  "tighten_cap r =
     Done (RunCodeCustom ''unclamp()'' 0
       (RunCodeCustom ''tighten_torque(2, -205.27, -115.27, 2, 2, 1, 100, 100, 50)'' 0
         (MoveJ (Joints tighten_torque_pose)
           (fold (tighten_cycle initial_turning_angle final_turning_angle) [0 ..< 6]
             (setSpeedJoints 700 (MoveL (Joints initial_turning_angle)
               (MoveJ (Pose (- 322.25) 38.78 250 180 0 90)
                 (RunCodeCustom ''clamp()'' 0
                   (set_motion_params 1000 500 r)))))))))"
  unfolding tighten_cap_def Let_def initial_turning_angle_def final_turning_angle_def
    tighten_torque_pose_def INSTRUCTION_INSERT_CODE_def GLOBAL_ACCELERATION_def
  by (simp add: getitem_def CLAMP_HEIGHTS_def)

lemma tighten_cap_log:
  "tighten_cap r = Done (r @
     [CSetSpeed 1000, CSetAcceleration 500, CRunCodeCustom ''clamp()'' 0,
      CMoveJ (Pose (- 322.25) 38.78 250 180 0 90),
      CMoveL (Joints initial_turning_angle), CSetSpeedJoints 700] @
     concat (replicate 6 oscillation_cycle) @
     [CMoveJ (Joints tighten_torque_pose),
      CRunCodeCustom ''tighten_torque(2, -205.27, -115.27, 2, 2, 1, 100, 100, 50)'' 0,
      CRunCodeCustom ''unclamp()'' 0])"
  unfolding tighten_cap_unfold fold_tighten_cycle
  by (simp add: cmd_defs)

lemma tray_coords_vals:
  "tray_coords 1 = Some [- 334.85, - 456.72]"
  "tray_coords 2 = Some [- 259.08, - 457.45]"
  "tray_coords 3 = Some [- 182.53, - 456.90]"
  "tray_coords 4 = Some [- 256.8, - 458.1]"
  by (simp_all add: tray_coords_def)

lemmas pickup_1 = goto_and_pickup_tray_Some [OF _ tray_coords_vals(1), simplified]
lemmas pickup_2 = goto_and_pickup_tray_Some [OF _ tray_coords_vals(2), simplified]
lemmas pickup_3 = goto_and_pickup_tray_Some [OF _ tray_coords_vals(3), simplified]
lemmas release_4 = goto_and_release_tray_Some [OF tray_coords_vals(4)]

lemmas log_simps =
  goto_and_pickup_tray_0 pickup_1 pickup_2 pickup_3 release_4
  move_endcap_to_pedestal_log pickup_from_clamp_log release_into_clamp_log tighten_cap_log

lemma main_log:
  "main r = Done (r @
     [CRunCodeCustom ''unclamp()'' 0, CMoveJ (Joints HOME_POSITION),
      CSetSpeed 1000, CSetAcceleration 500] @
     issued (goto_and_pickup_tray 0 10 130) [] @
     issued move_endcap_to_pedestal [] @
     issued (goto_and_pickup_tray 2 65.3 130) [] @
     issued (release_into_clamp 163.9 250) [] @
     issued (goto_and_pickup_tray 1 34 130) [] @
     issued (release_into_clamp 192.751 250) [] @
     issued (goto_and_pickup_tray 3 60.9 130) [] @
     issued tighten_cap [] @
     issued (pickup_from_clamp 185 250) [] @
     issued (goto_and_release_tray 4 89.90 130) [] @
     [CMoveJ (Joints HOME_POSITION)])"
  unfolding main_def Let_def
  by (simp add: getitem_def GRIP_HEIGHTS_def CLAMP_HEIGHTS_def CLEAR_HEIGHT_def
      log_simps issued_def cmd_defs)

subsection \<open>Case analyses and small facts\<close>

lemmas read_defs = targets_def poses_def List.map_filter_simps

lemma goto_and_pickup_tray_cases:
  "(\<exists>x y. issued (goto_and_pickup_tray s p c) r =
       [CSetSpeed 1000, CSetAcceleration 500, CMoveJ (Joints ENDCAP_CLR_JOINTS),
        CMoveL (Pose x y p 180 0 90), CRunCodeCustom ''rq_close_and_wait()'' 0,
        CMoveL (Pose x y c 180 0 90)])
   \<or> (\<exists>x y. issued (goto_and_pickup_tray s p c) r =
       [CSetSpeed 1000, CSetAcceleration 500, CMoveJ (Pose x y c 180 0 90),
        CMoveL (Pose x y p 180 0 90), CRunCodeCustom ''rq_close_and_wait()'' 0,
        CMoveL (Pose x y c 180 0 90)])
   \<or> issued (goto_and_pickup_tray s p c) r = [CSetSpeed 1000, CSetAcceleration 500]"
proof (cases "s = 0")
  case True
  then show ?thesis
    by (simp add: issued_def goto_and_pickup_tray_0)
next
  case False
  with tray_coords_cases [of s] show ?thesis
    by (auto simp add: issued_def goto_and_pickup_tray_Some goto_and_pickup_tray_None)
qed

lemma goto_and_release_tray_cases:
  "(\<exists>x y. issued (goto_and_release_tray s h c) r =
       [CSetSpeed 1000, CSetAcceleration 500, CMoveL (Pose x y c 180 0 90), CSetSpeed 200,
        CMoveL (Pose x y h 180 0 90), CRunCodeCustom ''rq_open()'' 0,
        CMoveL (Pose x y c 180 0 90)])
   \<or> issued (goto_and_release_tray s h c) r = []"
  using tray_coords_cases [of s]
  by (auto simp add: issued_def goto_and_release_tray_Some goto_and_release_tray_None)

lemma tray_pose_cases:
  "tray_pose s z = Inl KeyError \<or> (\<exists>x y. tray_pose s z = Inr (Pose x y z 180 0 90))"
  using tray_coords_cases [of s]
  by (auto simp add: tray_pose_Some tray_pose_None)

lemma replicate_6: "replicate 6 x = [x, x, x, x, x, x]"
  by (simp add: numeral_eq_Suc)

lemma issued_main:
  "issued main r =
     [CRunCodeCustom ''unclamp()'' 0, CMoveJ (Joints HOME_POSITION),
      CSetSpeed 1000, CSetAcceleration 500] @
     issued (goto_and_pickup_tray 0 10 130) [] @
     issued move_endcap_to_pedestal [] @
     issued (goto_and_pickup_tray 2 65.3 130) [] @
     issued (release_into_clamp 163.9 250) [] @
     issued (goto_and_pickup_tray 1 34 130) [] @
     issued (release_into_clamp 192.751 250) [] @
     issued (goto_and_pickup_tray 3 60.9 130) [] @
     issued tighten_cap [] @
     issued (pickup_from_clamp 185 250) [] @
     issued (goto_and_release_tray 4 89.90 130) [] @
     [CMoveJ (Joints HOME_POSITION)]"
  by (simp add: issued_def [of main] main_log)

section \<open>The properties of the specification\<close>

subsection \<open>C1: the order of main\<close>

text \<open>
  C1 as written says that a move to \<open>HOME_POSITION\<close> is the first action of the sequence
  that \<open>main\<close> issues. It is not: on a fresh handle the first command is the custom code
  \<open>unclamp()\<close>, the safety reset that the script puts ahead of everything else.
\<close>
theorem main_first_command_is_unclamp:
  "take 1 (issued main []) = [CRunCodeCustom ''unclamp()'' 0]
   \<and> take 1 (issued main []) \<noteq> [CMoveJ (Joints HOME_POSITION)]"
  by (simp add: issued_def main_log)

text \<open>
  C1, amended. The commands of \<open>main\<close> are, in this order: the \<open>unclamp()\<close> reset, the
  move to \<open>HOME_POSITION\<close>, the motion parameters, then the commands of
  \<open>goto_and_pickup_tray\<close> on slot 0, \<open>move_endcap_to_pedestal\<close>,
  \<open>goto_and_pickup_tray\<close> on slot 2, \<open>release_into_clamp\<close>,
  \<open>goto_and_pickup_tray\<close> on slot 1, \<open>release_into_clamp\<close>,
  \<open>goto_and_pickup_tray\<close> on slot 3, \<open>tighten_cap\<close>, \<open>pickup_from_clamp\<close>,
  \<open>goto_and_release_tray\<close> on slot 4, and a last move to \<open>HOME_POSITION\<close>. Read off
  the Cartesian targets, the tray slots are visited in the order 0, 2, 1, 3, 4. The move
  to \<open>HOME_POSITION\<close> is the second command and the first move of the sequence, and it is
  the last command.
\<close>
theorem main_visits_slots_in_order:
  "main robot = Done (robot @
     [CRunCodeCustom ''unclamp()'' 0, CMoveJ (Joints HOME_POSITION),
      CSetSpeed 1000, CSetAcceleration 500] @
     issued (goto_and_pickup_tray 0 10 130) [] @
     issued move_endcap_to_pedestal [] @
     issued (goto_and_pickup_tray 2 65.3 130) [] @
     issued (release_into_clamp 163.9 250) [] @
     issued (goto_and_pickup_tray 1 34 130) [] @
     issued (release_into_clamp 192.751 250) [] @
     issued (goto_and_pickup_tray 3 60.9 130) [] @
     issued tighten_cap [] @
     issued (pickup_from_clamp 185 250) [] @
     issued (goto_and_release_tray 4 89.90 130) [] @
     [CMoveJ (Joints HOME_POSITION)])
   \<and> visited_slots (issued main robot) = [0, 2, 1, 3, 4]
   \<and> take 2 (issued main robot) =
       [CRunCodeCustom ''unclamp()'' 0, CMoveJ (Joints HOME_POSITION)]
   \<and> take 1 (targets (issued main robot)) = [Joints HOME_POSITION]
   \<and> last (issued main robot) = CMoveJ (Joints HOME_POSITION)"
proof (intro conjI)
  show "visited_slots (issued main robot) = [0, 2, 1, 3, 4]"
    unfolding issued_main
    by (simp add: issued_def log_simps visited_slots_def read_defs slot_of_target_def slot_at_def
        tray_coords_def replicate_6 oscillation_cycle_def)
qed (simp_all add: main_log issued_main read_defs)

subsection \<open>C2: the oscillation cycles of tighten\_cap\<close>

text \<open>
  C2. \<open>tighten_cap\<close> always runs to its end, and its commands are: the preparation
  (motion parameters, \<open>clamp()\<close>, the approach, the first linear move to
  \<open>initial_turning_angle\<close>, the joint speed), then exactly six copies of the cycle
  close, move to \<open>final_turning_angle\<close>, open, slow down, move back to
  \<open>initial_turning_angle\<close>, then the move to the tightening pose, the torque-limited
  \<open>tighten_torque\<close> command, and \<open>unclamp()\<close> right after it. Counted on the log,
  the gripper closes six times, opens six times, and the arm moves to
  \<open>final_turning_angle\<close> six times.
\<close>
theorem tighten_cap_six_cycles:
  "tighten_cap robot = Done (robot @
     [CSetSpeed 1000, CSetAcceleration 500, CRunCodeCustom ''clamp()'' 0,
      CMoveJ (Pose (- 322.25) 38.78 250 180 0 90),
      CMoveL (Joints initial_turning_angle), CSetSpeedJoints 700] @
     concat (replicate 6 oscillation_cycle) @
     [CMoveJ (Joints tighten_torque_pose),
      CRunCodeCustom ''tighten_torque(2, -205.27, -115.27, 2, 2, 1, 100, 100, 50)'' 0,
      CRunCodeCustom ''unclamp()'' 0])
   \<and> count_list (issued tighten_cap robot) (CRunCodeCustom ''rq_close_and_wait()'' 0) = 6
   \<and> count_list (issued tighten_cap robot) (CMoveJ (Joints final_turning_angle)) = 6
   \<and> count_list (issued tighten_cap robot) (CRunCodeCustom ''rq_open()'' 0) = 6"
proof -
  have ne: "initial_turning_angle \<noteq> final_turning_angle" "tighten_torque_pose \<noteq> final_turning_angle"
    by (simp_all add: initial_turning_angle_def final_turning_angle_def tighten_torque_pose_def)
  show ?thesis
    by (simp add: issued_def tighten_cap_log replicate_6 oscillation_cycle_def ne)
qed

subsection \<open>C3: the clamp pickup and release pattern\<close>

text \<open>
  C3 asks both clamp operations to approach the clamp at the clear height before they
  descend. \<open>release_into_clamp\<close> does. \<open>pickup_from_clamp\<close>, called as in \<open>main\<close>
  with heights 185 and 250, builds the clear-height pose but its first move is the linear
  move down to the pickup height; the clear-height pose is only reached by the retract.
  Its move targets are two, those of \<open>release_into_clamp\<close> at the same heights three.
\<close>
theorem pickup_from_clamp_no_approach:
  "pickup_from_clamp 185 250 [] = Done
     [CSetSpeed 1000, CSetAcceleration 500, CSetSpeed 200,
      CMoveL (Pose (- 322.98) 38.3 185 180 0 90),
      CRunCodeCustom ''rq_close_and_wait()'' 0,
      CMoveL (Pose (- 322.98) 38.3 250 180 0 90)]
   \<and> targets (issued (pickup_from_clamp 185 250) []) =
       [Pose (- 322.98) 38.3 185 180 0 90, Pose (- 322.98) 38.3 250 180 0 90]
   \<and> targets (issued (release_into_clamp 185 250) []) =
       [Pose (- 322.98) 38.3 250 180 0 90, Pose (- 322.98) 38.3 185 180 0 90,
        Pose (- 322.98) 38.3 250 180 0 90]"
  using pickup_from_clamp_log [of 185 250 "[]"]
  by (simp add: issued_def log_simps read_defs)

subsection \<open>C4: tray\_pose on the configured slots\<close>

text \<open>
  C4. For every slot id among 0, 1, 2, 3, 4 and every height \<open>z\<close>, \<open>tray_pose\<close>
  returns the pose whose \<open>(x, y)\<close> is the configured coordinate \<open>tray_coords[slot]\<close>
  and whose height is \<open>z\<close>.
\<close>
theorem tray_pose_matches_tray_coords:
  assumes "slot \<in> {0, 1, 2, 3, 4}"
  shows "\<exists>x y. tray_coords slot = Some [x, y] \<and> tray_pose slot z = Inr (Pose x y z 180 0 90)"
proof -
  from assms have "tray_coords slot \<noteq> None"
    using dom_tray_coords by blast
  with tray_coords_cases [of slot] obtain x y where "tray_coords slot = Some [x, y]"
    by blast
  then show ?thesis
    by (simp add: tray_pose_Some)
qed

theorem tray_pose_matches_tray_coords_witness:
  "(3::int) \<in> {0, 1, 2, 3, 4} \<and> tray_coords 3 = Some [- 182.53, - 456.90]
     \<and> tray_pose 3 60.9 = Inr (Pose (- 182.53) (- 456.90) 60.9 180 0 90)"
  using tray_pose_matches_tray_coords [of 3 "60.9"]
  by (simp add: tray_coords_def)

subsection \<open>C5: the approach of goto\_and\_pickup\_tray\<close>

text \<open>
  C5. With slot 0, \<open>goto_and_pickup_tray\<close> approaches by a joint move to
  \<open>ENDCAP_CLR_JOINTS\<close> and issues no joint-interpolated move to a Cartesian pose at
  all. With any other configured slot, the approach is the joint-interpolated move to the
  tray pose of that slot at the clear height.
\<close>
theorem goto_and_pickup_tray_approach:
  "goto_and_pickup_tray 0 pickup_height clear_height robot = Done (robot @
     [CSetSpeed 1000, CSetAcceleration 500,
      CMoveJ (Joints ENDCAP_CLR_JOINTS),
      CMoveL (Pose (- 414.4) (- 456.17) pickup_height 180 0 90),
      CRunCodeCustom ''rq_close_and_wait()'' 0,
      CMoveL (Pose (- 414.4) (- 456.17) clear_height 180 0 90)])
   \<and> filter is_Pose (List.map_filter moveJ_target
        (issued (goto_and_pickup_tray 0 pickup_height clear_height) robot)) = []
   \<and> (slot \<noteq> 0 \<longrightarrow> slot \<in> dom tray_coords \<longrightarrow>
        (\<exists>approach pickup.
           tray_pose slot clear_height = Inr approach
         \<and> tray_pose slot pickup_height = Inr pickup
         \<and> goto_and_pickup_tray slot pickup_height clear_height robot = Done (robot @
             [CSetSpeed 1000, CSetAcceleration 500,
              CMoveJ approach, CMoveL pickup,
              CRunCodeCustom ''rq_close_and_wait()'' 0,
              CMoveL approach])))"
proof (intro conjI impI)
  show "goto_and_pickup_tray 0 pickup_height clear_height robot = Done (robot @
     [CSetSpeed 1000, CSetAcceleration 500,
      CMoveJ (Joints ENDCAP_CLR_JOINTS),
      CMoveL (Pose (- 414.4) (- 456.17) pickup_height 180 0 90),
      CRunCodeCustom ''rq_close_and_wait()'' 0,
      CMoveL (Pose (- 414.4) (- 456.17) clear_height 180 0 90)])"
    by (rule goto_and_pickup_tray_0)
next
  show "filter is_Pose (List.map_filter moveJ_target
        (issued (goto_and_pickup_tray 0 pickup_height clear_height) robot)) = []"
    by (simp add: issued_def log_simps List.map_filter_simps)
next
  assume "slot \<noteq> 0" and "slot \<in> dom tray_coords"
  with tray_coords_cases [of slot] obtain x y where xy: "tray_coords slot = Some [x, y]"
    by auto
  show "\<exists>approach pickup.
           tray_pose slot clear_height = Inr approach
         \<and> tray_pose slot pickup_height = Inr pickup
         \<and> goto_and_pickup_tray slot pickup_height clear_height robot = Done (robot @
             [CSetSpeed 1000, CSetAcceleration 500,
              CMoveJ approach, CMoveL pickup,
              CRunCodeCustom ''rq_close_and_wait()'' 0,
              CMoveL approach])"
    using \<open>slot \<noteq> 0\<close> xy
    by (simp add: tray_pose_Some goto_and_pickup_tray_Some)
qed

theorem goto_and_pickup_tray_approach_witness:
  "(2::int) \<noteq> 0 \<and> 2 \<in> dom tray_coords
   \<and> goto_and_pickup_tray 2 65.3 130 [] = Done
       [CSetSpeed 1000, CSetAcceleration 500,
        CMoveJ (Pose (- 259.08) (- 457.45) 130 180 0 90),
        CMoveL (Pose (- 259.08) (- 457.45) 65.3 180 0 90),
        CRunCodeCustom ''rq_close_and_wait()'' 0,
        CMoveL (Pose (- 259.08) (- 457.45) 130 180 0 90)]"
  using goto_and_pickup_tray_approach [of "65.3" 130 "[]" 2]
  by (auto simp add: dom_tray_coords tray_pose_Some [OF tray_coords_vals(2)])

subsection \<open>C6: where tray\_pose succeeds\<close>

text \<open>
  C6. \<open>tray_pose\<close> is a function of its two arguments alone: it takes no robot and
  returns none, so a call issues no command. The configured slot ids are exactly
  0, 1, 2, 3, 4. On each of them it succeeds and what it returns is a Cartesian pose,
  \<open>Pose(x, y, z, 180, 0, 90)\<close> with \<open>[x, y]\<close> the configured coordinate. On every
  other id it raises \<open>KeyError\<close>; seen from its caller \<open>goto_and_release_tray\<close>, which
  calls it first, the failing call leaves the robot's log as it was.
\<close>
theorem tray_pose_succeeds_iff_configured:
  "dom tray_coords = {0, 1, 2, 3, 4}
   \<and> (slot \<in> {0, 1, 2, 3, 4} \<longrightarrow>
        (\<exists>x y. tray_coords slot = Some [x, y]
             \<and> tray_pose slot z = Inr (Pose x y z 180 0 90)
             \<and> is_Pose (Pose x y z 180 0 90)))
   \<and> (slot \<notin> {0, 1, 2, 3, 4} \<longrightarrow>
        tray_pose slot z = Inl KeyError
      \<and> goto_and_release_tray slot z clear_height robot = Raised KeyError robot)"
proof (intro conjI impI)
  show "dom tray_coords = {0, 1, 2, 3, 4}"
    by (rule dom_tray_coords)
next
  assume "slot \<in> {0, 1, 2, 3, 4}"
  then have "tray_coords slot \<noteq> None"
    using dom_tray_coords by blast
  with tray_coords_cases [of slot] obtain x y where "tray_coords slot = Some [x, y]"
    by blast
  then show "\<exists>x y. tray_coords slot = Some [x, y]
      \<and> tray_pose slot z = Inr (Pose x y z 180 0 90)
      \<and> is_Pose (Pose x y z 180 0 90)"
    by (simp add: tray_pose_Some)
next
  assume "slot \<notin> {0, 1, 2, 3, 4}"
  then have none: "tray_coords slot = None"
    using dom_tray_coords by blast
  then show "tray_pose slot z = Inl KeyError"
    by (rule tray_pose_None)
  from none show "goto_and_release_tray slot z clear_height robot = Raised KeyError robot"
    by (rule goto_and_release_tray_None)
qed

theorem tray_pose_succeeds_iff_configured_witness:
  "(1::int) \<in> {0, 1, 2, 3, 4}
   \<and> tray_pose 1 34 = Inr (Pose (- 334.85) (- 456.72) 34 180 0 90)
   \<and> (5::int) \<notin> {0, 1, 2, 3, 4}
   \<and> tray_pose 5 34 = Inl KeyError
   \<and> goto_and_release_tray 5 34 130 [] = Raised KeyError []"
  using tray_pose_succeeds_iff_configured [of 1 34]
    tray_pose_succeeds_iff_configured [of 5 34 130 "[]"]
  by (auto simp add: tray_coords_vals(1))

subsection \<open>C7: the sequence of goto\_and\_release\_tray\<close>

text \<open>
  C7. On a configured slot, \<open>goto_and_release_tray\<close> issues, after the two commands of
  \<open>set_motion_params\<close> (speed 1000): a linear move to the tray pose at the clear height,
  a \<open>setSpeed\<close> to 200, which is lower than 1000, a linear move to the tray pose at the
  release height, the gripper-open command, and a linear move back to the clear-height
  pose.
\<close>
theorem goto_and_release_tray_sequence:
  assumes "tray_slot_index \<in> dom tray_coords"
  shows "\<exists>approach release.
           tray_pose tray_slot_index clear_height = Inr approach
         \<and> tray_pose tray_slot_index release_height = Inr release
         \<and> set_motion_params 1000 GLOBAL_ACCELERATION robot =
             robot @ [CSetSpeed 1000, CSetAcceleration GLOBAL_ACCELERATION]
         \<and> goto_and_release_tray tray_slot_index release_height clear_height robot =
             Done (robot @
               [CSetSpeed 1000, CSetAcceleration GLOBAL_ACCELERATION,
                CMoveL approach,
                CSetSpeed 200,
                CMoveL release,
                CRunCodeCustom ''rq_open()'' 0,
                CMoveL approach])
         \<and> (200::real) < 1000"
proof -
  from assms tray_coords_cases [of tray_slot_index]
  obtain x y where xy: "tray_coords tray_slot_index = Some [x, y]"
    by auto
  then show ?thesis
    by (simp add: tray_pose_Some goto_and_release_tray_Some cmd_defs)
qed

theorem goto_and_release_tray_sequence_witness:
  "(4::int) \<in> dom tray_coords
   \<and> goto_and_release_tray 4 89.90 130 [] = Done
       [CSetSpeed 1000, CSetAcceleration 500,
        CMoveL (Pose (- 256.8) (- 458.1) 130 180 0 90),
        CSetSpeed 200,
        CMoveL (Pose (- 256.8) (- 458.1) 89.90 180 0 90),
        CRunCodeCustom ''rq_open()'' 0,
        CMoveL (Pose (- 256.8) (- 458.1) 130 180 0 90)]"
  using goto_and_release_tray_sequence [of 4 130 "89.90" "[]"]
  by (auto simp add: dom_tray_coords tray_pose_Some [OF tray_coords_vals(4)]
      GLOBAL_ACCELERATION_def)

subsection \<open>C8: the fixed orientation\<close>

text \<open>
  C8. Every Cartesian pose among the move targets that \<open>goto_and_pickup_tray\<close>,
  \<open>goto_and_release_tray\<close>, \<open>pickup_from_clamp\<close>, \<open>release_into_clamp\<close> and
  \<open>tighten_cap\<close> issue, and every pose that \<open>tray_pose\<close> returns, has orientation
  (180, 0, 90). The only other move targets are joint-angle targets, which carry no
  orientation.
\<close>
theorem poses_have_fixed_orientation:
  "list_all (\<lambda>p. orientation p = Some (180, 0, 90))
      (poses (issued (goto_and_pickup_tray slot h c) robot))
   \<and> list_all (\<lambda>p. orientation p = Some (180, 0, 90))
      (poses (issued (goto_and_release_tray slot h c) robot))
   \<and> list_all (\<lambda>p. orientation p = Some (180, 0, 90))
      (poses (issued (pickup_from_clamp h c) robot))
   \<and> list_all (\<lambda>p. orientation p = Some (180, 0, 90))
      (poses (issued (release_into_clamp h c) robot))
   \<and> list_all (\<lambda>p. orientation p = Some (180, 0, 90))
      (poses (issued tighten_cap robot))
   \<and> (\<forall>p. tray_pose slot h = Inr p \<longrightarrow> orientation p = Some (180, 0, 90))"
proof (intro conjI allI impI)
  show "list_all (\<lambda>p. orientation p = Some (180, 0, 90))
      (poses (issued (goto_and_pickup_tray slot h c) robot))"
    using goto_and_pickup_tray_cases [of slot h c robot]
    by (auto simp add: read_defs)
next
  show "list_all (\<lambda>p. orientation p = Some (180, 0, 90))
      (poses (issued (goto_and_release_tray slot h c) robot))"
    using goto_and_release_tray_cases [of slot h c robot]
    by (auto simp add: read_defs)
next
  show "list_all (\<lambda>p. orientation p = Some (180, 0, 90))
      (poses (issued (pickup_from_clamp h c) robot))"
    by (simp add: issued_def pickup_from_clamp_log read_defs)
next
  show "list_all (\<lambda>p. orientation p = Some (180, 0, 90))
      (poses (issued (release_into_clamp h c) robot))"
    by (simp add: issued_def release_into_clamp_log read_defs)
next
  show "list_all (\<lambda>p. orientation p = Some (180, 0, 90))
      (poses (issued tighten_cap robot))"
    by (simp add: issued_def tighten_cap_log replicate_6 oscillation_cycle_def read_defs)
next
  fix p
  assume "tray_pose slot h = Inr p"
  with tray_pose_cases [of slot h] show "orientation p = Some (180, 0, 90)"
    by auto
qed

theorem poses_have_fixed_orientation_witness:
  "tray_pose 3 60.9 = Inr (Pose (- 182.53) (- 456.90) 60.9 180 0 90)
   \<and> orientation (Pose (- 182.53) (- 456.90) 60.9 180 0 90) = Some (180, 0, 90)
   \<and> list_all (\<lambda>p. orientation p = Some (180, 0, 90))
       (poses (issued (goto_and_pickup_tray 3 60.9 130) []))"
  using poses_have_fixed_orientation [of 3 "60.9" 130 "[]"]
  by (simp add: tray_pose_Some [OF tray_coords_vals(3)])

subsection \<open>C9: unclamp twice\<close>

text \<open>
  C9. On the modelled clamp, two \<open>unclamp()\<close> commands in a row leave the controller
  in the same state as one: the clamp is unclamped and nothing else has changed. The first
  command of \<open>main\<close> is that \<open>unclamp()\<close>, so whatever state a prior run left, the clamp
  is unclamped after it; and it is unclamped again when \<open>main\<close> has run to its end.
\<close>
theorem unclamp_idempotent:
  "run_log (RunCodeCustom ''unclamp()'' INSTRUCTION_INSERT_CODE
       (RunCodeCustom ''unclamp()'' INSTRUCTION_INSERT_CODE [])) c =
     run_log (RunCodeCustom ''unclamp()'' INSTRUCTION_INSERT_CODE []) c
   \<and> clamp (run_log (RunCodeCustom ''unclamp()'' INSTRUCTION_INSERT_CODE []) c) = Unclamped
   \<and> controller.more (run_log (RunCodeCustom ''unclamp()'' INSTRUCTION_INSERT_CODE []) c) =
       controller.more c
   \<and> take 1 (issued main robot) = RunCodeCustom ''unclamp()'' INSTRUCTION_INSERT_CODE []
   \<and> clamp (run_log (take 1 (issued main robot)) c) = Unclamped
   \<and> clamp (run_log (issued main robot) c) = Unclamped"
  by (simp add: run_log_def RunCodeCustom_def INSTRUCTION_INSERT_CODE_def issued_def log_simps
      main_log replicate_6 oscillation_cycle_def)

subsection \<open>C10: the anchor of tighten\_cap\<close>

text \<open>
  C10. The one Cartesian pose that \<open>tighten_cap\<close> issues is anchored at
  (-322.25, 38.78). Every Cartesian pose of \<open>pickup_from_clamp\<close> and
  \<open>release_into_clamp\<close> is anchored at \<open>CLAMP_XY\<close>, and the two anchors differ.
\<close>
theorem tighten_cap_anchor_differs:
  "map pose_xy (poses (issued tighten_cap robot)) = [Some (- 322.25, 38.78)]
   \<and> map pose_xy (poses (issued (pickup_from_clamp h c) robot)) =
       replicate 2 (Some (CLAMP_XY ! 0, CLAMP_XY ! 1))
   \<and> map pose_xy (poses (issued (release_into_clamp h c) robot)) =
       replicate 3 (Some (CLAMP_XY ! 0, CLAMP_XY ! 1))
   \<and> (- 322.25, 38.78) \<noteq> (CLAMP_XY ! 0, CLAMP_XY ! 1)"
  by (simp add: issued_def tighten_cap_log pickup_from_clamp_log release_into_clamp_log
      replicate_6 oscillation_cycle_def read_defs CLAMP_XY_def numeral_eq_Suc)

end
